theory Spec2Isabelle
  imports Main "HOL-Library.Word" "HOL-Library.Char_ord" "HOL-Library.List_Lexorder"
begin

unbundle bit_operations_syntax

section \<open>Certificate generation of the karmada operator (package certs)\<close>

text \<open>
  A shallow embedding of the Go package \<^verbatim>\<open>certs\<close>: key generation, self-signed
  certificate authorities, signed leaf certificates, normalisation of subject alternative
  names and the bundle built by \<^verbatim>\<open>GenCerts\<close>.

  The package calls the Go standard library (\<^verbatim>\<open>crypto/rand\<close>, \<^verbatim>\<open>crypto/x509\<close>,
  \<^verbatim>\<open>encoding/pem\<close>, \<^verbatim>\<open>net\<close>, \<^verbatim>\<open>time\<close>) and two Kubernetes libraries
  (\<^verbatim>\<open>client-go/util/cert\<close>, \<^verbatim>\<open>client-go/util/keyutil\<close>). Their code is not part of
  the package, so every such call is a field of the record \<open>env\<close> below, and the theorems
  hold for every environment. Calls that consume randomness take the state of the world
  (a type variable) and return the next one.

  A library call, and a function of the package that returns its values next to an error,
  returns either the error or the values: such a result is a sum, \<open>Inl\<close> for the error.
  The two results of \<^verbatim>\<open>GenCerts\<close>, the entry point of the package, are kept as Go has
  them.
\<close>

subsection \<open>Go values\<close>

type_synonym bytes = "8 word list"

text \<open>A Go slice is \<open>None\<close> when it is \<^verbatim>\<open>nil\<close>; \<^verbatim>\<open>len\<close>, \<^verbatim>\<open>range\<close> and
  \<^verbatim>\<open>append\<close> treat a nil slice as an empty one.\<close>

type_synonym 'a slice = "'a list option"

definition elems :: "'a slice \<Rightarrow> 'a list" where
  "elems s = (case s of None \<Rightarrow> [] | Some xs \<Rightarrow> xs)"

definition len :: "'a slice \<Rightarrow> nat" where
  "len s = length (elems s)"

definition go_append :: "'a slice \<Rightarrow> 'a \<Rightarrow> 'a slice" where
  "go_append s x = Some (elems s @ [x])"

text \<open>\<^verbatim>\<open>net.IP\<close> is a byte slice. \<^verbatim>\<open>time.Time\<close> is counted in whole seconds, the
  resolution of the validity fields of an X.509 certificate.\<close>

type_synonym IP = bytes
type_synonym time = int

text \<open>Go errors are compared and printed through their message.\<close>

datatype error = errors_New (Error: string)

definition fmt_Errorf :: "string \<Rightarrow> error \<Rightarrow> error" where
  \<comment> \<open>\<^verbatim>\<open>fmt.Errorf(format, err)\<close> for a format that ends in \<^verbatim>\<open>%v\<close>\<close>
  "fmt_Errorf prefix err = errors_New (prefix @ Error err)"

datatype PublicKeyAlgorithm = UnknownPublicKeyAlgorithm | RSA | DSA | ECDSA | Ed25519

datatype ExtKeyUsage =
    ExtKeyUsageAny | ExtKeyUsageServerAuth | ExtKeyUsageClientAuth | ExtKeyUsageCodeSigning
  | ExtKeyUsageEmailProtection | ExtKeyUsageIPSECEndSystem | ExtKeyUsageIPSECTunnel
  | ExtKeyUsageIPSECUser | ExtKeyUsageTimeStamping | ExtKeyUsageOCSPSigning
  | ExtKeyUsageMicrosoftServerGatedCrypto | ExtKeyUsageNetscapeServerGatedCrypto
  | ExtKeyUsageMicrosoftCommercialCodeSigning | ExtKeyUsageMicrosoftKernelCodeSigning

text \<open>\<^verbatim>\<open>x509.KeyUsage\<close> is a bit set held in an int.\<close>

definition KeyUsageDigitalSignature :: int where "KeyUsageDigitalSignature = 1"
definition KeyUsageKeyEncipherment :: int where "KeyUsageKeyEncipherment = 4"
definition KeyUsageCertSign :: int where "KeyUsageCertSign = 32"

text \<open>Keys are opaque to the package; a signer carries its public key.\<close>

datatype PublicKey = PublicKey bytes
datatype Signer = Signer (Public: PublicKey) bytes

subsection \<open>Structs\<close>

record AltNames =
  DNSNames :: "string slice"
  IPs :: "IP slice"

record Config =
  CommonName :: string
  Organization :: "string slice"
  AltNames :: AltNames
  Usages :: "ExtKeyUsage slice"

text \<open>\<^verbatim>\<open>CertsConfig\<close> embeds \<^verbatim>\<open>certutil.Config\<close>: the fields of the latter are its own.\<close>

record CertsConfig = Config +
  NotAfter :: "time option"
  PublicKeyAlgorithm :: PublicKeyAlgorithm

record Name =
  CommonName :: string
  Organization :: "string slice"

record Certificate =
  Raw :: bytes
  Subject :: Name
  DNSNames :: "string slice"
  IPAddresses :: "IP slice"
  SerialNumber :: int
  NotBefore :: time
  NotAfter :: time
  KeyUsage :: int
  ExtKeyUsage :: "ExtKeyUsage slice"
  BasicConstraintsValid :: bool
  IsCA :: bool

subsection \<open>Constants\<close>

definition certificateBlockType :: string where
  "certificateBlockType = ''CERTIFICATE''"

definition rsaKeySize :: nat where
  "rsaKeySize = 2048"

definition Hour :: int where
  "Hour = 3600"

definition Duration365d :: int where
  "Duration365d = Hour * 24 * 365"

definition math_MaxInt64 :: int where
  "math_MaxInt64 = 2 ^ 63 - 1"

subsection \<open>The libraries the package calls\<close>

record 'w env =
  ecdsa_GenerateKey :: "'w \<Rightarrow> (error + Signer) \<times> 'w"
  rsa_GenerateKey :: "nat \<Rightarrow> 'w \<Rightarrow> (error + Signer) \<times> 'w"
  certutil_NewSelfSignedCACert :: "Config \<Rightarrow> Signer \<Rightarrow> 'w \<Rightarrow> (error + Certificate) \<times> 'w"
  rand_Int :: "int \<Rightarrow> 'w \<Rightarrow> (error + int) \<times> 'w"
  time_Now :: "'w \<Rightarrow> time"
  x509_CreateCertificate ::
    "Certificate \<Rightarrow> Certificate \<Rightarrow> PublicKey \<Rightarrow> Signer \<Rightarrow> 'w \<Rightarrow> (error + bytes) \<times> 'w"
  x509_ParseCertificate :: "bytes \<Rightarrow> error + Certificate"
  keyutil_MarshalPrivateKeyToPEM :: "Signer \<Rightarrow> error + bytes"
  pem_EncodeToMemory :: "string \<Rightarrow> bytes \<Rightarrow> bytes"
  IP_String :: "IP \<Rightarrow> string"

text \<open>\<^verbatim>\<open>sets.NewString(xs...).List()\<close> of the Kubernetes \<^verbatim>\<open>sets\<close> library builds
  the set of the strings and returns its members sorted with Go's string order, which
  compares byte by byte. The result is never nil.\<close>

definition sets_NewString_List :: "string list \<Rightarrow> string slice" where
  "sets_NewString_List xs = Some (sort (remdups xs))"

subsection \<open>Keys and certificate authorities\<close>

definition GeneratePrivateKey :: "'w env \<Rightarrow> PublicKeyAlgorithm \<Rightarrow> 'w \<Rightarrow> (error + Signer) \<times> 'w" where
  "GeneratePrivateKey env keyType w =
     (if keyType = ECDSA then ecdsa_GenerateKey env w
      else rsa_GenerateKey env rsaKeySize w)"

text \<open>\<^verbatim>\<open>NewPrivateKey\<close> is a package variable initialised to \<^verbatim>\<open>GeneratePrivateKey\<close>
  and assigned nowhere in the package.\<close>

definition NewPrivateKey :: "'w env \<Rightarrow> PublicKeyAlgorithm \<Rightarrow> 'w \<Rightarrow> (error + Signer) \<times> 'w" where
  "NewPrivateKey = GeneratePrivateKey"

definition EncodeCertPEM :: "'w env \<Rightarrow> Certificate \<Rightarrow> bytes" where
  "EncodeCertPEM env cert = pem_EncodeToMemory env certificateBlockType (Raw cert)"

definition NewCertificateAuthority ::
  "'w env \<Rightarrow> CertsConfig \<Rightarrow> 'w \<Rightarrow> (error + Certificate \<times> Signer) \<times> 'w" where
  "NewCertificateAuthority env config w0 =
     (case NewPrivateKey env (PublicKeyAlgorithm config) w0 of
        (Inl err, w1) \<Rightarrow>
          (Inl (fmt_Errorf ''unable to create private key while generating CA certificate '' err), w1)
      | (Inr key, w1) \<Rightarrow>
          (case certutil_NewSelfSignedCACert env (Config.truncate config) key w1 of
             (Inl err, w2) \<Rightarrow>
               (Inl (fmt_Errorf ''unable to create self-signed CA certificate '' err), w2)
           | (Inr cert, w2) \<Rightarrow> (Inr (cert, key), w2)))"

text \<open>The composite literal of \<^verbatim>\<open>NewCACertAndKey\<close> sets the common name only; every
  other field has Go's zero value.\<close>

definition NewCACertAndKey :: "'w env \<Rightarrow> string \<Rightarrow> 'w \<Rightarrow> (error + Certificate \<times> Signer) \<times> 'w" where
  "NewCACertAndKey env cn w0 =
     (let certCfg = \<lparr>Config.CommonName = cn, Config.Organization = None,
                      AltNames = \<lparr>AltNames.DNSNames = None, IPs = None\<rparr>, Usages = None,
                      CertsConfig.NotAfter = None,
                      PublicKeyAlgorithm = UnknownPublicKeyAlgorithm\<rparr>
      in case NewCertificateAuthority env certCfg w0 of
           (Inl err, w1) \<Rightarrow>
             (Inl (fmt_Errorf ''failure while generating CA certificate and key: '' err), w1)
         | (Inr (caCert, caKey), w1) \<Rightarrow> (Inr (caCert, caKey), w1))"

subsection \<open>Normalising subject alternative names\<close>

text \<open>The loop of \<^verbatim>\<open>RemoveDuplicateAltNames\<close> over the addresses still to visit, with
  the map \<^verbatim>\<open>ipsKeys\<close> and the slice \<^verbatim>\<open>ips\<close> as they stand.\<close>

fun ips_loop ::
  "(IP \<Rightarrow> string) \<Rightarrow> IP list \<Rightarrow> (string \<rightharpoonup> unit) \<Rightarrow> IP slice \<Rightarrow> IP slice" where
  "ips_loop str [] ipsKeys ips = ips"
| "ips_loop str (one # rest) ipsKeys ips =
     (if ipsKeys (str one) = None
      then ips_loop str rest (ipsKeys(str one \<mapsto> ())) (go_append ips one)
      else ips_loop str rest ipsKeys ips)"

text \<open>The function works through a pointer: it takes the value the pointer refers to
  (\<open>None\<close> for a nil pointer) and returns the value found there afterwards.\<close>

definition RemoveDuplicateAltNames :: "'w env \<Rightarrow> AltNames option \<Rightarrow> AltNames option" where
  "RemoveDuplicateAltNames env altNames =
     (case altNames of
        None \<Rightarrow> None
      | Some a \<Rightarrow>
          (let a = (case AltNames.DNSNames a of
                      None \<Rightarrow> a
                    | Some names \<Rightarrow> a\<lparr>AltNames.DNSNames := sets_NewString_List names\<rparr>);
               ipsKeys = Map.empty;
               ips = None;
               ips = ips_loop (IP_String env) (elems (IPs a)) ipsKeys ips
           in Some (a\<lparr>IPs := ips\<rparr>)))"

subsection \<open>Signed certificates\<close>

text \<open>\<^verbatim>\<open>NewSignedCert\<close> receives its configuration through a pointer and writes the
  normalised names back through it, so the model returns the configuration as the caller
  finds it after the call, next to the result and the world.\<close>

definition NewSignedCert ::
  "'w env \<Rightarrow> CertsConfig \<Rightarrow> Signer \<Rightarrow> Certificate \<Rightarrow> Signer \<Rightarrow> bool \<Rightarrow> 'w
     \<Rightarrow> (error + Certificate) \<times> CertsConfig \<times> 'w" where
  "NewSignedCert env cfg key caCert caKey isCA w0 =
     (case rand_Int env math_MaxInt64 w0 of
        (Inl err, w1) \<Rightarrow> (Inl err, cfg, w1)
      | (Inr serial, w1) \<Rightarrow>
          if length (Config.CommonName cfg) = 0
          then (Inl (errors_New ''must specify a CommonName''), cfg, w1)
          else
            (let keyUsage = KeyUsageKeyEncipherment OR KeyUsageDigitalSignature;
                 keyUsage = (if isCA then keyUsage OR KeyUsageCertSign else keyUsage);
                 cfg = (case RemoveDuplicateAltNames env (Some (AltNames cfg)) of
                          None \<Rightarrow> cfg
                        | Some a \<Rightarrow> cfg\<lparr>AltNames := a\<rparr>);
                 notAfter = time_Now env w1 + Duration365d;
                 notAfter = (case CertsConfig.NotAfter cfg of
                               None \<Rightarrow> notAfter
                             | Some t \<Rightarrow> t);
                 certTmpl = \<lparr>Raw = [],
                             Subject = \<lparr>Name.CommonName = Config.CommonName cfg,
                                        Name.Organization = Config.Organization cfg\<rparr>,
                             Certificate.DNSNames = AltNames.DNSNames (AltNames cfg),
                             IPAddresses = IPs (AltNames cfg),
                             SerialNumber = serial,
                             NotBefore = NotBefore caCert,
                             Certificate.NotAfter = notAfter,
                             KeyUsage = keyUsage,
                             ExtKeyUsage = Usages cfg,
                             BasicConstraintsValid = True,
                             IsCA = isCA\<rparr>
             in case x509_CreateCertificate env certTmpl caCert (Public key) caKey w1 of
                  (Inl err, w2) \<Rightarrow> (Inl err, cfg, w2)
                | (Inr certDERBytes, w2) \<Rightarrow>
                    (x509_ParseCertificate env certDERBytes, cfg, w2)))"

definition NewCertAndKey ::
  "'w env \<Rightarrow> Certificate \<Rightarrow> Signer \<Rightarrow> CertsConfig \<Rightarrow> 'w
     \<Rightarrow> (error + Certificate \<times> Signer) \<times> CertsConfig \<times> 'w" where
  "NewCertAndKey env caCert caKey config w0 =
     (if len (Usages config) = 0
      then (Inl (errors_New ''must specify at least one ExtKeyUsage''), config, w0)
      else
        (case NewPrivateKey env (PublicKeyAlgorithm config) w0 of
           (Inl err, w1) \<Rightarrow> (Inl (fmt_Errorf ''unable to create private key '' err), config, w1)
         | (Inr key, w1) \<Rightarrow>
             (case NewSignedCert env config key caCert caKey False w1 of
                (Inl err, config, w2) \<Rightarrow>
                  (Inl (fmt_Errorf ''unable to sign certificate. '' err), config, w2)
              | (Inr cert, config, w2) \<Rightarrow> (Inr (cert, key), config, w2))))"

definition NewCertConfig ::
  "string \<Rightarrow> string slice \<Rightarrow> AltNames \<Rightarrow> time option \<Rightarrow> CertsConfig" where
  "NewCertConfig cn org altNames notAfter =
     \<lparr>Config.CommonName = cn,
      Config.Organization = org,
      AltNames = altNames,
      Usages = Some [ExtKeyUsageServerAuth, ExtKeyUsageClientAuth],
      CertsConfig.NotAfter = notAfter,
      PublicKeyAlgorithm = UnknownPublicKeyAlgorithm\<rparr>"

subsection \<open>The bundle\<close>

text \<open>\<^verbatim>\<open>GenCerts\<close> returns a map and an error as two values; the model keeps them
  apart, \<open>None\<close> for \<^verbatim>\<open>nil\<close>. The five configurations come in through pointers, taken to
  be distinct and not nil, and are returned as the caller finds them afterwards, in the
  order of the parameters.\<close>

type_synonym cert_data = "string \<rightharpoonup> bytes"

type_synonym configs = "CertsConfig \<times> CertsConfig \<times> CertsConfig \<times> CertsConfig \<times> CertsConfig"

definition GenCerts ::
  "'w env \<Rightarrow> CertsConfig \<Rightarrow> CertsConfig \<Rightarrow> CertsConfig \<Rightarrow> CertsConfig \<Rightarrow> CertsConfig \<Rightarrow> 'w
     \<Rightarrow> (cert_data option \<times> error option) \<times> configs \<times> 'w" where
  "GenCerts env etcdServerCertCfg etcdClientCertCfg karmadaCertCfg apiserverCertCfg
       frontProxyClientCertCfg w =
   (case NewCACertAndKey env ''karmada'' w of
      (Inl err, w) \<Rightarrow>
        ((None, Some err),
         (etcdServerCertCfg, etcdClientCertCfg, karmadaCertCfg, apiserverCertCfg,
          frontProxyClientCertCfg), w)
    | (Inr (caCert, caKey), w) \<Rightarrow>
   (let data = Map.empty in
    case keyutil_MarshalPrivateKeyToPEM env caKey of
      Inl err \<Rightarrow>
        ((None, Some err),
         (etcdServerCertCfg, etcdClientCertCfg, karmadaCertCfg, apiserverCertCfg,
          frontProxyClientCertCfg), w)
    | Inr encodedCAKey \<Rightarrow>
   (let encodedCACert = EncodeCertPEM env caCert;
        data = data(''ca.key'' \<mapsto> encodedCAKey);
        data = data(''ca.crt'' \<mapsto> encodedCACert) in
    case NewCertAndKey env caCert caKey karmadaCertCfg w of
      (Inl err, karmadaCertCfg, w) \<Rightarrow>
        ((None, Some err),
         (etcdServerCertCfg, etcdClientCertCfg, karmadaCertCfg, apiserverCertCfg,
          frontProxyClientCertCfg), w)
    | (Inr (karmadaCert, karmadaKey), karmadaCertCfg, w) \<Rightarrow>
   (case keyutil_MarshalPrivateKeyToPEM env karmadaKey of
      Inl err \<Rightarrow>
        ((None, Some err),
         (etcdServerCertCfg, etcdClientCertCfg, karmadaCertCfg, apiserverCertCfg,
          frontProxyClientCertCfg), w)
    | Inr encodedKarmadaKey \<Rightarrow>
   (let encodedKarmadaCert = EncodeCertPEM env karmadaCert;
        data = data(''karmada.key'' \<mapsto> encodedKarmadaKey);
        data = data(''karmada.crt'' \<mapsto> encodedKarmadaCert) in
    case NewCertAndKey env caCert caKey apiserverCertCfg w of
      (Inl err, apiserverCertCfg, w) \<Rightarrow>
        ((None, Some err),
         (etcdServerCertCfg, etcdClientCertCfg, karmadaCertCfg, apiserverCertCfg,
          frontProxyClientCertCfg), w)
    | (Inr (apiserverCert, apiserverKey), apiserverCertCfg, w) \<Rightarrow>
   (case keyutil_MarshalPrivateKeyToPEM env apiserverKey of
      Inl err \<Rightarrow>
        ((None, Some err),
         (etcdServerCertCfg, etcdClientCertCfg, karmadaCertCfg, apiserverCertCfg,
          frontProxyClientCertCfg), w)
    | Inr encodedApiserverKey \<Rightarrow>
   (let encodedApiserverCert = EncodeCertPEM env apiserverCert;
        data = data(''apiserver.key'' \<mapsto> encodedApiserverKey);
        data = data(''apiserver.crt'' \<mapsto> encodedApiserverCert) in
    case NewCACertAndKey env ''front-proxy-ca'' w of
      (Inl err, w) \<Rightarrow>
        ((None, Some err),
         (etcdServerCertCfg, etcdClientCertCfg, karmadaCertCfg, apiserverCertCfg,
          frontProxyClientCertCfg), w)
    | (Inr (frontProxyCaCert, frontProxyCaKey), w) \<Rightarrow>
   (case keyutil_MarshalPrivateKeyToPEM env frontProxyCaKey of
      Inl err \<Rightarrow>
        ((None, Some err),
         (etcdServerCertCfg, etcdClientCertCfg, karmadaCertCfg, apiserverCertCfg,
          frontProxyClientCertCfg), w)
    | Inr encodedFrontProxyCaKey \<Rightarrow>
   (let encodedFrontProxyCaCert = EncodeCertPEM env frontProxyCaCert;
        data = data(''front-proxy-ca.key'' \<mapsto> encodedFrontProxyCaKey);
        data = data(''front-proxy-ca.crt'' \<mapsto> encodedFrontProxyCaCert) in
    case NewCertAndKey env frontProxyCaCert frontProxyCaKey frontProxyClientCertCfg w of
      (Inl err, frontProxyClientCertCfg, w) \<Rightarrow>
        ((None, Some err),
         (etcdServerCertCfg, etcdClientCertCfg, karmadaCertCfg, apiserverCertCfg,
          frontProxyClientCertCfg), w)
    | (Inr (frontProxyClientCert, frontProxyClientKey), frontProxyClientCertCfg, w) \<Rightarrow>
   (case keyutil_MarshalPrivateKeyToPEM env frontProxyClientKey of
      Inl err \<Rightarrow>
        ((None, Some err),
         (etcdServerCertCfg, etcdClientCertCfg, karmadaCertCfg, apiserverCertCfg,
          frontProxyClientCertCfg), w)
    | Inr encodedFrontProxyClientKey \<Rightarrow>
   (let encodedFrontProxyClientCert = EncodeCertPEM env frontProxyClientCert;
        data = data(''front-proxy-client.key'' \<mapsto> encodedFrontProxyClientKey);
        data = data(''front-proxy-client.crt'' \<mapsto> encodedFrontProxyClientCert) in
    case NewCACertAndKey env ''etcd-ca'' w of
      (Inl err, w) \<Rightarrow>
        ((None, Some err),
         (etcdServerCertCfg, etcdClientCertCfg, karmadaCertCfg, apiserverCertCfg,
          frontProxyClientCertCfg), w)
    | (Inr (etcdCaCert, etcdCaKey), w) \<Rightarrow>
   (case keyutil_MarshalPrivateKeyToPEM env etcdCaKey of
      Inl err \<Rightarrow>
        ((None, Some err),
         (etcdServerCertCfg, etcdClientCertCfg, karmadaCertCfg, apiserverCertCfg,
          frontProxyClientCertCfg), w)
    | Inr encodedEtcdCaKey \<Rightarrow>
   (let encodedEtcdCaCert = EncodeCertPEM env etcdCaCert;
        data = data(''etcd-ca.key'' \<mapsto> encodedEtcdCaKey);
        data = data(''etcd-ca.crt'' \<mapsto> encodedEtcdCaCert) in
    case NewCertAndKey env etcdCaCert etcdCaKey etcdServerCertCfg w of
      (Inl err, etcdServerCertCfg, w) \<Rightarrow>
        ((None, Some err),
         (etcdServerCertCfg, etcdClientCertCfg, karmadaCertCfg, apiserverCertCfg,
          frontProxyClientCertCfg), w)
    | (Inr (etcdServerCert, etcdServerKey), etcdServerCertCfg, w) \<Rightarrow>
   (case keyutil_MarshalPrivateKeyToPEM env etcdServerKey of
      Inl err \<Rightarrow>
        ((None, Some err),
         (etcdServerCertCfg, etcdClientCertCfg, karmadaCertCfg, apiserverCertCfg,
          frontProxyClientCertCfg), w)
    | Inr encodedEtcdServerKey \<Rightarrow>
   (let encodedEtcdServerCert = EncodeCertPEM env etcdServerCert;
        data = data(''etcd-server.key'' \<mapsto> encodedEtcdServerKey);
        data = data(''etcd-server.crt'' \<mapsto> encodedEtcdServerCert) in
    case NewCertAndKey env etcdCaCert etcdCaKey etcdClientCertCfg w of
      (Inl err, etcdClientCertCfg, w) \<Rightarrow>
        ((None, Some err),
         (etcdServerCertCfg, etcdClientCertCfg, karmadaCertCfg, apiserverCertCfg,
          frontProxyClientCertCfg), w)
    | (Inr (etcdClientCert, etcdClientKey), etcdClientCertCfg, w) \<Rightarrow>
   (case keyutil_MarshalPrivateKeyToPEM env etcdClientKey of
      Inl err \<Rightarrow>
        ((None, Some err),
         (etcdServerCertCfg, etcdClientCertCfg, karmadaCertCfg, apiserverCertCfg,
          frontProxyClientCertCfg), w)
    | Inr encodedEtcdClientKey \<Rightarrow>
   (let encodedEtcdClientCert = EncodeCertPEM env etcdClientCert;
        data = data(''etcd-client.key'' \<mapsto> encodedEtcdClientKey);
        data = data(''etcd-client.crt'' \<mapsto> encodedEtcdClientCert) in
    ((Some data, None),
     (etcdServerCertCfg, etcdClientCertCfg, karmadaCertCfg, apiserverCertCfg,
      frontProxyClientCertCfg), w))))))))))))))))))"

subsection \<open>Notions used to state the properties\<close>

text \<open>The elements of a list that are the first with their key, in the order of the
  list; \<open>K\<close> holds the keys already seen.\<close>

fun first_seen :: "('a \<Rightarrow> 'k) \<Rightarrow> 'k set \<Rightarrow> 'a list \<Rightarrow> 'a list" where
  "first_seen f K [] = []"
| "first_seen f K (x # xs) =
     (if f x \<in> K then first_seen f K xs else x # first_seen f (insert (f x) K) xs)"

text \<open>\<^verbatim>\<open>NewSignedCert\<close> returns what \<^verbatim>\<open>x509.ParseCertificate\<close> reads back from the
  bytes \<^verbatim>\<open>x509.CreateCertificate\<close> has made of the template. What it returns therefore
  rests on the library: a statement about the validity of the returned certificate assumes
  that the library reads back the validity it was given.\<close>

definition x509_keeps_validity :: "'w env \<Rightarrow> bool" where
  "x509_keeps_validity env \<longleftrightarrow>
     (\<forall>tmpl parent pub priv w der w' cert.
        x509_CreateCertificate env tmpl parent pub priv w = (Inr der, w') \<longrightarrow>
        x509_ParseCertificate env der = Inr cert \<longrightarrow>
        NotBefore cert = NotBefore tmpl \<and> Certificate.NotAfter cert = Certificate.NotAfter tmpl)"

text \<open>The two PEM encoders never produce an empty output: an encoded block has at least
  its BEGIN and END lines.\<close>

definition pem_nonempty :: "'w env \<Rightarrow> bool" where
  "pem_nonempty env \<longleftrightarrow>
     (\<forall>ty b. pem_EncodeToMemory env ty b \<noteq> [])
   \<and> (\<forall>key out. keyutil_MarshalPrivateKeyToPEM env key = Inr out \<longrightarrow> out \<noteq> [])"

text \<open>The steps of a run of \<^verbatim>\<open>GenCerts\<close>, stated on the calls of the libraries alone.
  A key is generated when the generator chosen by the algorithm returns it.\<close>

definition key_generated :: "'w env \<Rightarrow> PublicKeyAlgorithm \<Rightarrow> 'w \<Rightarrow> Signer \<Rightarrow> 'w \<Rightarrow> bool" where
  "key_generated env alg w key w' \<longleftrightarrow>
     (if alg = ECDSA then ecdsa_GenerateKey env w else rsa_GenerateKey env 2048 w) = (Inr key, w')"

text \<open>A certificate authority is issued when its key is generated and the library signs
  its certificate with that key.\<close>

definition ca_issued :: "'w env \<Rightarrow> string \<Rightarrow> 'w \<Rightarrow> Certificate \<Rightarrow> Signer \<Rightarrow> 'w \<Rightarrow> bool" where
  "ca_issued env cn w cert key w' \<longleftrightarrow>
     (\<exists>w1. key_generated env UnknownPublicKeyAlgorithm w key w1
         \<and> certutil_NewSelfSignedCACert env
              \<lparr>Config.CommonName = cn, Config.Organization = None,
               AltNames = \<lparr>AltNames.DNSNames = None, IPs = None\<rparr>, Usages = None\<rparr>
              key w1 = (Inr cert, w'))"

text \<open>The template that \<^verbatim>\<open>NewSignedCert\<close> hands to \<^verbatim>\<open>x509.CreateCertificate\<close> for a
  certificate that is not an authority, once the serial number is drawn.\<close>

definition leaf_template :: "'w env \<Rightarrow> CertsConfig \<Rightarrow> int \<Rightarrow> Certificate \<Rightarrow> 'w \<Rightarrow> Certificate" where
  "leaf_template env cfg serial caCert w =
     (let names = (case RemoveDuplicateAltNames env (Some (AltNames cfg)) of
                     None \<Rightarrow> AltNames cfg
                   | Some a \<Rightarrow> a)
      in \<lparr>Raw = [],
          Subject = \<lparr>Name.CommonName = Config.CommonName cfg,
                     Name.Organization = Config.Organization cfg\<rparr>,
          Certificate.DNSNames = AltNames.DNSNames names,
          IPAddresses = IPs names,
          SerialNumber = serial,
          NotBefore = NotBefore caCert,
          Certificate.NotAfter = (case CertsConfig.NotAfter cfg of
                                    None \<Rightarrow> time_Now env w + Duration365d
                                  | Some t \<Rightarrow> t),
          KeyUsage = KeyUsageKeyEncipherment OR KeyUsageDigitalSignature,
          ExtKeyUsage = Usages cfg,
          BasicConstraintsValid = True,
          IsCA = False\<rparr>)"

text \<open>A leaf certificate is issued when its configuration names a usage and a common
  name, its key is generated, its serial number is drawn, and the library signs the
  template and reads the certificate back.\<close>

definition leaf_issued ::
  "'w env \<Rightarrow> Certificate \<Rightarrow> Signer \<Rightarrow> CertsConfig \<Rightarrow> 'w \<Rightarrow> Certificate \<Rightarrow> Signer \<Rightarrow> 'w \<Rightarrow> bool" where
  "leaf_issued env caCert caKey cfg w cert key w' \<longleftrightarrow>
     len (Usages cfg) \<noteq> 0 \<and> Config.CommonName cfg \<noteq> []
   \<and> (\<exists>w1 serial w2 der.
         key_generated env (PublicKeyAlgorithm cfg) w key w1
       \<and> rand_Int env (2 ^ 63 - 1) w1 = (Inr serial, w2)
       \<and> x509_CreateCertificate env (leaf_template env cfg serial caCert w2) caCert (Public key)
            caKey w2 = (Inr der, w')
       \<and> x509_ParseCertificate env der = Inr cert)"

text \<open>The PEM encodings, by the libraries, of a key and of a certificate.\<close>

definition key_encoded :: "'w env \<Rightarrow> Signer \<Rightarrow> bytes \<Rightarrow> bool" where
  "key_encoded env key out \<longleftrightarrow> keyutil_MarshalPrivateKeyToPEM env key = Inr out"

definition cert_encoded :: "'w env \<Rightarrow> Certificate \<Rightarrow> bytes" where
  "cert_encoded env cert = pem_EncodeToMemory env ''CERTIFICATE'' (Raw cert)"

text \<open>Every step of the run has succeeded: the three authorities and the five leaves
  are issued one after the other, each from the world the one before has left, each leaf
  by its authority, every key is encoded, and \<open>m\<close> holds the sixteen encodings under
  their names.\<close>

definition bundle_issued ::
  "'w env \<Rightarrow> CertsConfig \<Rightarrow> CertsConfig \<Rightarrow> CertsConfig \<Rightarrow> CertsConfig \<Rightarrow> CertsConfig \<Rightarrow> 'w
     \<Rightarrow> cert_data \<Rightarrow> 'w \<Rightarrow> bool" where
  "bundle_issued env etcdServerCertCfg etcdClientCertCfg karmadaCertCfg apiserverCertCfg
       frontProxyClientCertCfg w m w' \<longleftrightarrow>
     (\<exists>caCert caKey o1 w1 karmadaCert karmadaKey o2 w2 apiserverCert apiserverKey o3 w3
        frontProxyCaCert frontProxyCaKey o4 w4 frontProxyClientCert frontProxyClientKey o5 w5
        etcdCaCert etcdCaKey o6 w6 etcdServerCert etcdServerKey o7 w7
        etcdClientCert etcdClientKey o8.
        ca_issued env ''karmada'' w caCert caKey w1
      \<and> key_encoded env caKey o1
      \<and> leaf_issued env caCert caKey karmadaCertCfg w1 karmadaCert karmadaKey w2
      \<and> key_encoded env karmadaKey o2
      \<and> leaf_issued env caCert caKey apiserverCertCfg w2 apiserverCert apiserverKey w3
      \<and> key_encoded env apiserverKey o3
      \<and> ca_issued env ''front-proxy-ca'' w3 frontProxyCaCert frontProxyCaKey w4
      \<and> key_encoded env frontProxyCaKey o4
      \<and> leaf_issued env frontProxyCaCert frontProxyCaKey frontProxyClientCertCfg w4
            frontProxyClientCert frontProxyClientKey w5
      \<and> key_encoded env frontProxyClientKey o5
      \<and> ca_issued env ''etcd-ca'' w5 etcdCaCert etcdCaKey w6
      \<and> key_encoded env etcdCaKey o6
      \<and> leaf_issued env etcdCaCert etcdCaKey etcdServerCertCfg w6 etcdServerCert etcdServerKey w7
      \<and> key_encoded env etcdServerKey o7
      \<and> leaf_issued env etcdCaCert etcdCaKey etcdClientCertCfg w7 etcdClientCert etcdClientKey w'
      \<and> key_encoded env etcdClientKey o8
      \<and> m = [''ca.key'' \<mapsto> o1, ''ca.crt'' \<mapsto> cert_encoded env caCert,
              ''karmada.key'' \<mapsto> o2, ''karmada.crt'' \<mapsto> cert_encoded env karmadaCert,
              ''apiserver.key'' \<mapsto> o3, ''apiserver.crt'' \<mapsto> cert_encoded env apiserverCert,
              ''front-proxy-ca.key'' \<mapsto> o4,
              ''front-proxy-ca.crt'' \<mapsto> cert_encoded env frontProxyCaCert,
              ''front-proxy-client.key'' \<mapsto> o5,
              ''front-proxy-client.crt'' \<mapsto> cert_encoded env frontProxyClientCert,
              ''etcd-ca.key'' \<mapsto> o6, ''etcd-ca.crt'' \<mapsto> cert_encoded env etcdCaCert,
              ''etcd-server.key'' \<mapsto> o7, ''etcd-server.crt'' \<mapsto> cert_encoded env etcdServerCert,
              ''etcd-client.key'' \<mapsto> o8, ''etcd-client.crt'' \<mapsto> cert_encoded env etcdClientCert])"






text \<open>The names of the eight identities. An identity has a PEM pair in a map when the
  map holds, under its two keys, the encoding by \<^verbatim>\<open>keyutil\<close> of a key that a generator has
  returned and the encoding by \<^verbatim>\<open>encoding/pem\<close>, as a block of type CERTIFICATE, of the
  raw bytes of a certificate that the library has returned, neither of them empty.\<close>

definition GenCerts_names :: "string set" where
  "GenCerts_names =
     {''ca'', ''karmada'', ''apiserver'', ''front-proxy-ca'', ''front-proxy-client'',
      ''etcd-ca'', ''etcd-server'', ''etcd-client''}"

definition generated_key :: "'w env \<Rightarrow> Signer \<Rightarrow> bool" where
  "generated_key env key \<longleftrightarrow>
     (\<exists>w w'. ecdsa_GenerateKey env w = (Inr key, w'))
   \<or> (\<exists>w w'. rsa_GenerateKey env 2048 w = (Inr key, w'))"

definition issued_cert :: "'w env \<Rightarrow> Certificate \<Rightarrow> bool" where
  "issued_cert env cert \<longleftrightarrow>
     (\<exists>cfg key w w'. certutil_NewSelfSignedCACert env cfg key w = (Inr cert, w'))
   \<or> (\<exists>der. x509_ParseCertificate env der = Inr cert)"

definition pem_pair :: "'w env \<Rightarrow> cert_data \<Rightarrow> string \<Rightarrow> bool" where
  "pem_pair env m name \<longleftrightarrow>
     (\<exists>key out cert.
        generated_key env key \<and> issued_cert env cert
      \<and> keyutil_MarshalPrivateKeyToPEM env key = Inr out
      \<and> m (name @ ''.key'') = Some out \<and> out \<noteq> []
      \<and> m (name @ ''.crt'') = Some (pem_EncodeToMemory env ''CERTIFICATE'' (Raw cert))
      \<and> pem_EncodeToMemory env ''CERTIFICATE'' (Raw cert) \<noteq> [])"

definition GenCerts_keys :: "string set" where
  "GenCerts_keys =
     {''ca.key'', ''ca.crt'', ''karmada.key'', ''karmada.crt'', ''apiserver.key'',
      ''apiserver.crt'', ''front-proxy-ca.key'', ''front-proxy-ca.crt'',
      ''front-proxy-client.key'', ''front-proxy-client.crt'', ''etcd-ca.key'', ''etcd-ca.crt'',
      ''etcd-server.key'', ''etcd-server.crt'', ''etcd-client.key'', ''etcd-client.crt''}"

subsection \<open>A test double of the libraries\<close>

text \<open>To run the functions on concrete inputs the libraries are replaced by a double,
  as a Go test would do. Its world is a counter of the draws made on the random source;
  \<open>failAt\<close> is the draw at which the source is exhausted, if any. Its clock stands at
  \<open>mock_now\<close>. Its X.509 encoder knows the encodings of a few validity periods only and
  rejects every other template, and its parser reads back exactly those encodings.
  Its \<open>IP.String\<close> prints the dotted form of a four-byte address and of a sixteen-byte
  address that embeds one.\<close>

definition mock_now :: time where
  "mock_now = 1000"

definition mock_dec :: "8 word \<Rightarrow> string" where
  "mock_dec b =
     (let n = unat b; d = (\<lambda>k. ''0123456789'' ! k)
      in if n < 10 then [d n]
         else if n < 100 then [d (n div 10), d (n mod 10)]
         else [d (n div 100), d (n div 10 mod 10), d (n mod 10)])"

definition v4InV6Prefix :: bytes where
  "v4InV6Prefix = [0, 0, 0, 0, 0, 0, 0, 0, 0, 0, 0xff, 0xff]"

definition mock_IP_String :: "IP \<Rightarrow> string" where
  "mock_IP_String ip =
     (case (if length ip = 16 \<and> take 12 ip = v4InV6Prefix then drop 12 ip else ip) of
        [a, b, c, d] \<Rightarrow> mock_dec a @ ''.'' @ mock_dec b @ ''.'' @ mock_dec c @ ''.'' @ mock_dec d
      | _ \<Rightarrow> ''?'')"

definition mock_GenerateKey :: "nat option \<Rightarrow> nat \<Rightarrow> (error + Signer) \<times> nat" where
  "mock_GenerateKey failAt w =
     (if failAt = Some w then (Inl (errors_New ''entropy exhausted''), w)
      else (Inr (Signer (PublicKey [of_nat w]) [of_nat w]), w + 1))"

definition mock_rand_Int :: "nat option \<Rightarrow> int \<Rightarrow> nat \<Rightarrow> (error + int) \<times> nat" where
  "mock_rand_Int failAt bound w =
     (if failAt = Some w then (Inl (errors_New ''entropy exhausted''), w)
      else (Inr (int w mod bound), w + 1))"

definition mock_table :: "((time \<times> time) \<times> bytes) list" where
  "mock_table =
     [((1000, 31537000), [0x30, 0x02]),
      ((5, 31537000), [0x30, 0x03]),
      ((5, 2000), [0x30, 0x04])]"

definition mock_certificate :: "string \<Rightarrow> bytes \<Rightarrow> time \<Rightarrow> time \<Rightarrow> bool \<Rightarrow> Certificate" where
  "mock_certificate cn der nb na ca =
     \<lparr>Raw = der, Subject = \<lparr>Name.CommonName = cn, Name.Organization = None\<rparr>,
      Certificate.DNSNames = None, IPAddresses = None, SerialNumber = 0,
      NotBefore = nb, Certificate.NotAfter = na, KeyUsage = 0, ExtKeyUsage = None,
      BasicConstraintsValid = True, IsCA = ca\<rparr>"

definition mock_CreateCertificate :: "Certificate \<Rightarrow> error + bytes" where
  "mock_CreateCertificate tmpl =
     (case map_of mock_table (NotBefore tmpl, Certificate.NotAfter tmpl) of
        None \<Rightarrow> Inl (errors_New ''x509: validity unknown to the test double'')
      | Some der \<Rightarrow> Inr der)"

definition mock_ParseCertificate :: "bytes \<Rightarrow> error + Certificate" where
  "mock_ParseCertificate der =
     (case map_of (map prod.swap mock_table) der of
        None \<Rightarrow> Inl (errors_New ''x509: malformed certificate'')
      | Some (nb, na) \<Rightarrow> Inr (mock_certificate ''parsed'' der nb na False))"

definition mock_env :: "nat option \<Rightarrow> nat env" where
  "mock_env failAt =
     \<lparr>ecdsa_GenerateKey = mock_GenerateKey failAt,
      rsa_GenerateKey = (\<lambda>bits. mock_GenerateKey failAt),
      certutil_NewSelfSignedCACert =
        (\<lambda>cfg key w. (Inr (mock_certificate (Config.CommonName cfg) [0x30, 0x01] mock_now
                              (mock_now + 10 * Duration365d) True), w)),
      rand_Int = mock_rand_Int failAt,
      time_Now = (\<lambda>w. mock_now),
      x509_CreateCertificate = (\<lambda>tmpl parent pub priv w. (mock_CreateCertificate tmpl, w)),
      x509_ParseCertificate = mock_ParseCertificate,
      keyutil_MarshalPrivateKeyToPEM = (\<lambda>key. case key of Signer pub sec \<Rightarrow> Inr (0x2D # sec)),
      pem_EncodeToMemory = (\<lambda>ty b. 0x2D # b),
      IP_String = mock_IP_String\<rparr>"

subsection \<open>Concrete inputs\<close>

text \<open>The names \<^verbatim>\<open>b, a, a\<close> and the addresses \<^verbatim>\<open>10.0.0.1, 10.0.0.2, 10.0.0.1\<close>,
  the last one in its sixteen-byte form.\<close>

definition ex_altNames :: AltNames where
  "ex_altNames =
     \<lparr>AltNames.DNSNames = Some [''b'', ''a'', ''a''],
      IPs = Some [[10, 0, 0, 1], [10, 0, 0, 2], v4InV6Prefix @ [10, 0, 0, 1]]\<rparr>"

definition ex_altNames_after :: AltNames where
  "ex_altNames_after =
     \<lparr>AltNames.DNSNames = Some [''a'', ''b''], IPs = Some [[10, 0, 0, 1], [10, 0, 0, 2]]\<rparr>"

definition ex_cfg :: CertsConfig where
  "ex_cfg = NewCertConfig ''karmada-apiserver'' (Some [''system:masters'']) ex_altNames None"

definition ex_cfg_after :: CertsConfig where
  "ex_cfg_after = ex_cfg\<lparr>AltNames := ex_altNames_after\<rparr>"

definition ex_cfg_noCN :: CertsConfig where
  "ex_cfg_noCN = NewCertConfig [] None \<lparr>AltNames.DNSNames = None, IPs = None\<rparr> None"

definition ex_cfg_noUsages :: CertsConfig where
  "ex_cfg_noUsages = ex_cfg\<lparr>Usages := None\<rparr>"

definition ex_key :: Signer where
  "ex_key = Signer (PublicKey [7]) [7]"

definition ex_caKey :: Signer where
  "ex_caKey = Signer (PublicKey [9]) [9]"

text \<open>A certificate authority made at time 5, well before the clock of the double.\<close>

definition ex_caCert :: Certificate where
  "ex_caCert = mock_certificate ''karmada'' [0x30, 0x01] 5 (5 + 10 * Duration365d) True"

definition ex_cert :: Certificate where
  "ex_cert = mock_certificate ''parsed'' [0x30, 0x03] 5 31537000 False"

definition ex_leaf :: Certificate where
  "ex_leaf = mock_certificate ''parsed'' [0x30, 0x02] 1000 31537000 False"

definition ex_data :: cert_data where
  "ex_data =
     [''ca.key'' \<mapsto> [0x2D, 0], ''ca.crt'' \<mapsto> [0x2D, 0x30, 0x01],
      ''karmada.key'' \<mapsto> [0x2D, 1], ''karmada.crt'' \<mapsto> [0x2D, 0x30, 0x02],
      ''apiserver.key'' \<mapsto> [0x2D, 3], ''apiserver.crt'' \<mapsto> [0x2D, 0x30, 0x02],
      ''front-proxy-ca.key'' \<mapsto> [0x2D, 5], ''front-proxy-ca.crt'' \<mapsto> [0x2D, 0x30, 0x01],
      ''front-proxy-client.key'' \<mapsto> [0x2D, 6], ''front-proxy-client.crt'' \<mapsto> [0x2D, 0x30, 0x02],
      ''etcd-ca.key'' \<mapsto> [0x2D, 8], ''etcd-ca.crt'' \<mapsto> [0x2D, 0x30, 0x01],
      ''etcd-server.key'' \<mapsto> [0x2D, 9], ''etcd-server.crt'' \<mapsto> [0x2D, 0x30, 0x02],
      ''etcd-client.key'' \<mapsto> [0x2D, 11], ''etcd-client.crt'' \<mapsto> [0x2D, 0x30, 0x02]]"

section \<open>Properties\<close>

subsection \<open>Slices and the loop over the addresses\<close>

lemma elems_simps [simp]: "elems None = []" "elems (Some xs) = xs"
  by (simp_all add: elems_def)

lemma ips_loop_elems:
  "elems (ips_loop str xs ipsKeys ips) = elems ips @ first_seen str (dom ipsKeys) xs"
  by (induction xs arbitrary: ipsKeys ips) (auto simp: go_append_def domIff)

lemma ips_loop_nil:
  "ips_loop str xs ipsKeys ips = None \<longleftrightarrow> ips = None \<and> first_seen str (dom ipsKeys) xs = []"
  by (induction xs arbitrary: ipsKeys ips) (auto simp: go_append_def domIff)

lemma ips_loop_start:
  "ips_loop str xs Map.empty None =
     (if first_seen str {} xs = [] then None else Some (first_seen str {} xs))"
  using ips_loop_elems [of str xs Map.empty None] ips_loop_nil [of str xs Map.empty None]
  by (cases "ips_loop str xs Map.empty None") auto

lemma first_seen_keys: "f ` set (first_seen f K xs) = f ` set xs - K"
  by (induction xs arbitrary: K) auto

lemma first_seen_distinct: "distinct (map f (first_seen f K xs))"
proof (induction xs arbitrary: K)
  case Nil
  show ?case by simp
next
  case (Cons x xs)
  have "f x \<notin> f ` set (first_seen f (insert (f x) K) xs)"
    by (simp add: first_seen_keys)
  with Cons show ?case by simp
qed

lemma first_seen_id:
  "distinct (map f xs) \<Longrightarrow> f ` set xs \<inter> K = {} \<Longrightarrow> first_seen f K xs = xs"
  by (induction xs arbitrary: K) auto

lemma first_seen_idem: "first_seen f {} (first_seen f {} xs) = first_seen f {} xs"
  by (rule first_seen_id) (simp_all add: first_seen_distinct)

text \<open>An element is kept exactly when no earlier position holds its key.\<close>

lemma first_seen_nth:
  "first_seen f K xs =
     map (nth xs)
       (filter (\<lambda>i. f (xs ! i) \<notin> K \<and> (\<forall>j<i. f (xs ! j) \<noteq> f (xs ! i))) [0..<length xs])"
proof (induction xs arbitrary: K)
  case Nil
  show ?case by simp
next
  case (Cons x xs)
  have upt: "[0..<length (x # xs)] = 0 # map Suc [0..<length xs]"
    by (simp add: upt_conv_Cons map_Suc_upt del: upt_Suc)
  have eq: "filter (\<lambda>i. f (xs ! i) \<notin> K \<and> f x \<noteq> f (xs ! i) \<and> (\<forall>j<i. f (xs ! j) \<noteq> f (xs ! i)))
               [0..<length xs] =
            filter (\<lambda>i. f (xs ! i) \<notin> K' \<and> (\<forall>j<i. f (xs ! j) \<noteq> f (xs ! i))) [0..<length xs]"
    if "K' = insert (f x) K" for K'
    using that by (intro filter_cong) auto
  show ?case
  proof (cases "f x \<in> K")
    case True
    then have "insert (f x) K = K" by auto
    with True eq [of K] show ?thesis
      unfolding upt by (simp add: Cons.IH filter_map comp_def All_less_Suc2)
  next
    case False
    with eq [of "insert (f x) K"] show ?thesis
      unfolding upt by (simp add: Cons.IH filter_map comp_def All_less_Suc2)
  qed
qed

lemma RemoveDuplicateAltNames_Some:
  "RemoveDuplicateAltNames env (Some a) =
     Some \<lparr>AltNames.DNSNames = (case AltNames.DNSNames a of None \<Rightarrow> None
                                | Some names \<Rightarrow> Some (sort (remdups names))),
           IPs = ips_loop (IP_String env) (elems (IPs a)) Map.empty None\<rparr>"
  by (cases a) (simp add: RemoveDuplicateAltNames_def sets_NewString_List_def split: option.splits)

subsection \<open>The test double on the concrete inputs\<close>

lemma mock_env_sel:
  "ecdsa_GenerateKey (mock_env failAt) = mock_GenerateKey failAt"
  "rsa_GenerateKey (mock_env failAt) bits = mock_GenerateKey failAt"
  "certutil_NewSelfSignedCACert (mock_env failAt) cfg key w =
     (Inr (mock_certificate (Config.CommonName cfg) [0x30, 0x01] mock_now
             (mock_now + 10 * Duration365d) True), w)"
  "rand_Int (mock_env failAt) = mock_rand_Int failAt"
  "time_Now (mock_env failAt) w = mock_now"
  "x509_CreateCertificate (mock_env failAt) tmpl parent pub priv w = (mock_CreateCertificate tmpl, w)"
  "x509_ParseCertificate (mock_env failAt) = mock_ParseCertificate"
  "keyutil_MarshalPrivateKeyToPEM (mock_env failAt) (Signer pub sec) = Inr (0x2D # sec)"
  "pem_EncodeToMemory (mock_env failAt) ty b = 0x2D # b"
  "IP_String (mock_env failAt) = mock_IP_String"
  by (simp_all add: mock_env_def)

lemma mock_keeps_validity: "x509_keeps_validity (mock_env failAt)"
  by (auto simp: x509_keeps_validity_def mock_env_def mock_CreateCertificate_def
      mock_ParseCertificate_def mock_table_def mock_certificate_def split: if_splits)

lemma mock_pem_nonempty: "pem_nonempty (mock_env failAt)"
  by (auto simp: pem_nonempty_def mock_env_def split: Signer.splits)

lemma mock_certificate_Raw: "Raw (mock_certificate cn der nb na ca) = der"
  by (simp add: mock_certificate_def)

lemma mock_IP_String_examples:
  "mock_IP_String [10, 0, 0, 1] = ''10.0.0.1''"
  "mock_IP_String [10, 0, 0, 2] = ''10.0.0.2''"
  "mock_IP_String (v4InV6Prefix @ [10, 0, 0, 1]) = ''10.0.0.1''"
  by (simp_all add: mock_IP_String_def mock_dec_def v4InV6Prefix_def)

lemma ex_normalised:
  "RemoveDuplicateAltNames (mock_env failAt) (Some ex_altNames) = Some ex_altNames_after"
  by (simp add: RemoveDuplicateAltNames_def ex_altNames_def ex_altNames_after_def
      sets_NewString_List_def mock_env_sel mock_IP_String_examples go_append_def)

lemma ex_run:
  "NewSignedCert (mock_env None) ex_cfg ex_key ex_caCert ex_caKey False 0 =
     (Inr ex_cert, ex_cfg_after, 1)"
  unfolding NewSignedCert_def
  by (simp add: ex_normalised mock_env_sel mock_rand_Int_def math_MaxInt64_def ex_cfg_def
      NewCertConfig_def ex_cfg_after_def ex_cert_def ex_caCert_def mock_certificate_def
      mock_CreateCertificate_def mock_ParseCertificate_def mock_table_def mock_now_def
      Duration365d_def Hour_def)

lemma mock_NewCACertAndKey:
  "failAt \<noteq> Some w \<Longrightarrow>
   NewCACertAndKey (mock_env failAt) cn w =
     (Inr (mock_certificate cn [0x30, 0x01] mock_now (mock_now + 10 * Duration365d) True,
           Signer (PublicKey [of_nat w]) [of_nat w]), w + 1)"
  by (simp add: NewCACertAndKey_def NewCertificateAuthority_def NewPrivateKey_def
      GeneratePrivateKey_def mock_env_sel mock_GenerateKey_def Config.defs)

lemma mock_NewSignedCert:
  "failAt \<noteq> Some w \<Longrightarrow>
   NewSignedCert (mock_env failAt) ex_cfg key
       (mock_certificate cn raw mock_now na True) caKey False w =
     (Inr ex_leaf, ex_cfg_after, w + 1)"
  unfolding NewSignedCert_def
  by (simp add: ex_normalised mock_env_sel mock_rand_Int_def math_MaxInt64_def ex_cfg_def
      NewCertConfig_def ex_cfg_after_def ex_leaf_def mock_certificate_def
      mock_CreateCertificate_def mock_ParseCertificate_def mock_table_def mock_now_def
      Duration365d_def Hour_def)

lemma mock_NewCertAndKey:
  "failAt \<noteq> Some w \<Longrightarrow> failAt \<noteq> Some (w + 1) \<Longrightarrow>
   NewCertAndKey (mock_env failAt) (mock_certificate cn raw mock_now na True) caKey ex_cfg w =
     (Inr (ex_leaf, Signer (PublicKey [of_nat w]) [of_nat w]), ex_cfg_after, w + 2)"
  by (simp add: NewCertAndKey_def mock_NewSignedCert NewPrivateKey_def GeneratePrivateKey_def
      mock_env_sel mock_GenerateKey_def)
    (simp add: ex_cfg_def NewCertConfig_def len_def)


text \<open>A full run, and a run in which the key of the third identity cannot be made.\<close>

lemma ex_GenCerts:
  "GenCerts (mock_env None) ex_cfg ex_cfg ex_cfg ex_cfg ex_cfg 0 =
     ((Some ex_data, None),
      (ex_cfg_after, ex_cfg_after, ex_cfg_after, ex_cfg_after, ex_cfg_after), 13)"
  unfolding GenCerts_def
  by (simp add: mock_NewCACertAndKey mock_NewCertAndKey mock_env_sel EncodeCertPEM_def
      ex_data_def ex_leaf_def mock_certificate_Raw)


subsection \<open>The steps of GenCerts and the calls of the libraries\<close>

lemma GenCerts_keys_card: "card GenCerts_keys = 16"
  by (simp add: GenCerts_keys_def)

text \<open>A function of the package returns a certificate and a key exactly when the
  library calls behind it have succeeded.\<close>

lemma NewCACertAndKey_Inr:
  "NewCACertAndKey env cn w = (Inr (cert, key), w') \<longleftrightarrow> ca_issued env cn w cert key w'"
  by (auto simp: NewCACertAndKey_def NewCertificateAuthority_def NewPrivateKey_def
      GeneratePrivateKey_def rsaKeySize_def ca_issued_def key_generated_def Config.defs
      split: prod.splits sum.splits)

lemma NewSignedCert_leaf_Inr:
  "(\<exists>cfg'. NewSignedCert env cfg key caCert caKey False w = (Inr cert, cfg', w')) \<longleftrightarrow>
     Config.CommonName cfg \<noteq> []
   \<and> (\<exists>serial w2 der.
         rand_Int env (2 ^ 63 - 1) w = (Inr serial, w2)
       \<and> x509_CreateCertificate env (leaf_template env cfg serial caCert w2) caCert (Public key)
            caKey w2 = (Inr der, w')
       \<and> x509_ParseCertificate env der = Inr cert)"
  by (auto simp: NewSignedCert_def leaf_template_def math_MaxInt64_def Let_def
      RemoveDuplicateAltNames_Some
      split: prod.splits sum.splits if_splits)

lemma NewCertAndKey_Inr:
  "(\<exists>cfg'. NewCertAndKey env caCert caKey cfg w = (Inr (cert, key), cfg', w')) \<longleftrightarrow>
     leaf_issued env caCert caKey cfg w cert key w'"
proof -
  have "(\<exists>cfg'. NewCertAndKey env caCert caKey cfg w = (Inr (cert, key), cfg', w')) \<longleftrightarrow>
     len (Usages cfg) \<noteq> 0
   \<and> (\<exists>w1. key_generated env (PublicKeyAlgorithm cfg) w key w1
          \<and> (\<exists>cfg'. NewSignedCert env cfg key caCert caKey False w1 = (Inr cert, cfg', w')))"
    by (auto simp: NewCertAndKey_def NewPrivateKey_def GeneratePrivateKey_def rsaKeySize_def
        key_generated_def split: prod.splits sum.splits if_splits)
  then show ?thesis
    unfolding NewSignedCert_leaf_Inr leaf_issued_def by blast
qed

lemma NewCertAndKey_InrD:
  "NewCertAndKey env caCert caKey cfg w = (Inr (cert, key), cfg', w') \<Longrightarrow>
     leaf_issued env caCert caKey cfg w cert key w'"
  unfolding NewCertAndKey_Inr [symmetric] by blast


text \<open>A map is returned only when every step has succeeded, and then it is the map of
  the encodings.\<close>

lemma GenCerts_success_chain:
  assumes "GenCerts env c1 c2 c3 c4 c5 w = ((Some m, err), cfgs, w')"
  shows "err = None \<and> bundle_issued env c1 c2 c3 c4 c5 w m w'"
  using assms unfolding GenCerts_def Let_def bundle_issued_def
  apply (simp split: prod.splits sum.splits add: NewCACertAndKey_Inr EncodeCertPEM_def
      certificateBlockType_def key_encoded_def cert_encoded_def)
  apply (elim conjE exE)
  apply (drule NewCertAndKey_InrD)+
  apply (intro exI conjI)
  apply (assumption | (rule sym, assumption))+
  done


lemma bundle_issued_dom: "bundle_issued env c1 c2 c3 c4 c5 w m w' \<Longrightarrow> dom m = GenCerts_keys"
  unfolding bundle_issued_def by (elim exE conjE) (simp add: GenCerts_keys_def insert_commute)









lemma key_generated_generated: "key_generated env alg w key w' \<Longrightarrow> generated_key env key"
  unfolding key_generated_def generated_key_def by (auto split: if_splits)

lemma ca_issued_lib: "ca_issued env cn w cert key w' \<Longrightarrow> generated_key env key \<and> issued_cert env cert"
  unfolding ca_issued_def issued_cert_def by (blast intro: key_generated_generated)

lemma leaf_issued_lib:
  "leaf_issued env caCert caKey cfg w cert key w' \<Longrightarrow> generated_key env key \<and> issued_cert env cert"
  unfolding leaf_issued_def issued_cert_def by (blast intro: key_generated_generated)

lemma pem_pairI:
  assumes "pem_nonempty env" and "generated_key env key \<and> issued_cert env cert"
    and "key_encoded env key out"
    and "m (name @ ''.key'') = Some out"
    and "m (name @ ''.crt'') = Some (cert_encoded env cert)"
  shows "pem_pair env m name"
proof -
  from assms(1,3) have "out \<noteq> []"
    by (simp add: pem_nonempty_def key_encoded_def)
  moreover from assms(1) have "pem_EncodeToMemory env ''CERTIFICATE'' (Raw cert) \<noteq> []"
    by (simp add: pem_nonempty_def)
  ultimately show ?thesis
    using assms(2-5) unfolding pem_pair_def key_encoded_def cert_encoded_def by blast
qed

section \<open>The claims\<close>

subsection \<open>GenCerts\<close>



text \<open>
  Claim C5. The map of a successful call has exactly the sixteen keys \<open>GenCerts_keys\<close>.
  Each of the eight identities has its PEM pair in it: under its \<^verbatim>\<open>.key\<close> name the
  encoding by \<^verbatim>\<open>keyutil\<close> of a generated key, under its \<^verbatim>\<open>.crt\<close> name the encoding by
  \<^verbatim>\<open>encoding/pem\<close>, as a CERTIFICATE block, of the raw bytes of a certificate the library
  has returned. No entry is empty when the two encoders never produce an empty output.
\<close>

theorem GenCerts_full_bundle:
  assumes "GenCerts env c1 c2 c3 c4 c5 w = ((Some m, err), cfgs, w')"
    and "pem_nonempty env"
  shows "dom m = GenCerts_keys \<and> card (dom m) = 16
       \<and> (\<forall>name\<in>GenCerts_names. pem_pair env m name)
       \<and> (\<forall>k\<in>dom m. \<exists>v. m k = Some v \<and> v \<noteq> [])"
proof -
  from GenCerts_success_chain [OF assms(1)]
  have b: "bundle_issued env c1 c2 c3 c4 c5 w m w'" by blast
  then obtain caCert caKey o1 w1 karmadaCert karmadaKey o2 w2 apiserverCert apiserverKey
      o3 w3 frontProxyCaCert frontProxyCaKey o4 w4 frontProxyClientCert frontProxyClientKey o5
      w5 etcdCaCert etcdCaKey o6 w6 etcdServerCert etcdServerKey o7 w7 etcdClientCert
      etcdClientKey o8 where
    a1: "ca_issued env ''karmada'' w caCert caKey w1"
    and e1: "key_encoded env caKey o1"
    and l2: "leaf_issued env caCert caKey c3 w1 karmadaCert karmadaKey w2"
    and e2: "key_encoded env karmadaKey o2"
    and l3: "leaf_issued env caCert caKey c4 w2 apiserverCert apiserverKey w3"
    and e3: "key_encoded env apiserverKey o3"
    and a4: "ca_issued env ''front-proxy-ca'' w3 frontProxyCaCert frontProxyCaKey w4"
    and e4: "key_encoded env frontProxyCaKey o4"
    and l5: "leaf_issued env frontProxyCaCert frontProxyCaKey c5 w4 frontProxyClientCert
               frontProxyClientKey w5"
    and e5: "key_encoded env frontProxyClientKey o5"
    and a6: "ca_issued env ''etcd-ca'' w5 etcdCaCert etcdCaKey w6"
    and e6: "key_encoded env etcdCaKey o6"
    and l7: "leaf_issued env etcdCaCert etcdCaKey c1 w6 etcdServerCert etcdServerKey w7"
    and e7: "key_encoded env etcdServerKey o7"
    and l8: "leaf_issued env etcdCaCert etcdCaKey c2 w7 etcdClientCert etcdClientKey w'"
    and e8: "key_encoded env etcdClientKey o8"
    and m: "m = [''ca.key'' \<mapsto> o1, ''ca.crt'' \<mapsto> cert_encoded env caCert,
              ''karmada.key'' \<mapsto> o2, ''karmada.crt'' \<mapsto> cert_encoded env karmadaCert,
              ''apiserver.key'' \<mapsto> o3, ''apiserver.crt'' \<mapsto> cert_encoded env apiserverCert,
              ''front-proxy-ca.key'' \<mapsto> o4,
              ''front-proxy-ca.crt'' \<mapsto> cert_encoded env frontProxyCaCert,
              ''front-proxy-client.key'' \<mapsto> o5,
              ''front-proxy-client.crt'' \<mapsto> cert_encoded env frontProxyClientCert,
              ''etcd-ca.key'' \<mapsto> o6, ''etcd-ca.crt'' \<mapsto> cert_encoded env etcdCaCert,
              ''etcd-server.key'' \<mapsto> o7, ''etcd-server.crt'' \<mapsto> cert_encoded env etcdServerCert,
              ''etcd-client.key'' \<mapsto> o8, ''etcd-client.crt'' \<mapsto> cert_encoded env etcdClientCert]"
    unfolding bundle_issued_def by (elim exE conjE) (rule that)
  have d: "dom m = GenCerts_keys"
    by (rule bundle_issued_dom [OF b])
  have m1: "pem_pair env m ''ca''"
    by (rule pem_pairI [OF assms(2) ca_issued_lib [OF a1] e1]) (simp_all add: m)
  have m2: "pem_pair env m ''karmada''"
    by (rule pem_pairI [OF assms(2) leaf_issued_lib [OF l2] e2]) (simp_all add: m)
  have m3: "pem_pair env m ''apiserver''"
    by (rule pem_pairI [OF assms(2) leaf_issued_lib [OF l3] e3]) (simp_all add: m)
  have m4: "pem_pair env m ''front-proxy-ca''"
    by (rule pem_pairI [OF assms(2) ca_issued_lib [OF a4] e4]) (simp_all add: m)
  have m5: "pem_pair env m ''front-proxy-client''"
    by (rule pem_pairI [OF assms(2) leaf_issued_lib [OF l5] e5]) (simp_all add: m)
  have m6: "pem_pair env m ''etcd-ca''"
    by (rule pem_pairI [OF assms(2) ca_issued_lib [OF a6] e6]) (simp_all add: m)
  have m7: "pem_pair env m ''etcd-server''"
    by (rule pem_pairI [OF assms(2) leaf_issued_lib [OF l7] e7]) (simp_all add: m)
  have m8: "pem_pair env m ''etcd-client''"
    by (rule pem_pairI [OF assms(2) leaf_issued_lib [OF l8] e8]) (simp_all add: m)
  note p = m1 m2 m3 m4 m5 m6 m7 m8
  have n: "\<forall>k\<in>GenCerts_keys. \<exists>v. m k = Some v \<and> v \<noteq> []"
    using p unfolding GenCerts_keys_def pem_pair_def by auto
  from d p n show ?thesis
    by (simp add: GenCerts_keys_card GenCerts_names_def)
qed

text \<open>The full run of the example: sixteen keys, and the PEM pair of the last
  identity.\<close>

theorem GenCerts_full_bundle_witness:
  "GenCerts (mock_env None) ex_cfg ex_cfg ex_cfg ex_cfg ex_cfg 0 =
     ((Some ex_data, None),
      (ex_cfg_after, ex_cfg_after, ex_cfg_after, ex_cfg_after, ex_cfg_after), 13)
   \<and> pem_nonempty (mock_env None)
   \<and> dom ex_data = GenCerts_keys
   \<and> card (dom ex_data) = 16
   \<and> pem_pair (mock_env None) ex_data ''etcd-client''
   \<and> (\<exists>v. ex_data ''etcd-client.crt'' = Some v \<and> v \<noteq> [])"
proof -
  note t = GenCerts_full_bundle [OF ex_GenCerts mock_pem_nonempty]
  from t have d: "dom ex_data = GenCerts_keys" and c: "card (dom ex_data) = 16"
    and p: "\<forall>name\<in>GenCerts_names. pem_pair (mock_env None) ex_data name"
    and a: "\<forall>k\<in>dom ex_data. \<exists>v. ex_data k = Some v \<and> v \<noteq> []"
    by blast+
  have "''etcd-client'' \<in> GenCerts_names"
    by (simp add: GenCerts_names_def)
  with p have q: "pem_pair (mock_env None) ex_data ''etcd-client''"
    by (rule bspec)
  have "''etcd-client.crt'' \<in> dom ex_data"
    unfolding d by (simp add: GenCerts_keys_def)
  with a have "\<exists>v. ex_data ''etcd-client.crt'' = Some v \<and> v \<noteq> []"
    by (rule bspec)
  with ex_GenCerts mock_pem_nonempty d c q show ?thesis
    by (intro conjI)
qed

subsection \<open>NewSignedCert\<close>

text \<open>
  Claim C2, as amended. When the library reads back the validity it was given, the
  certificate returned by \<^verbatim>\<open>NewSignedCert\<close> expires at the explicit expiry of the
  configuration when there is one, and otherwise 365 days after the time of the call,
  which is read from the clock once the serial number has been drawn. The expiry is not
  counted from the start of validity.
\<close>

theorem NewSignedCert_NotAfter:
  assumes "NewSignedCert env cfg key caCert caKey isCA w = (Inr cert, cfg', w')"
    and "x509_keeps_validity env"
  shows "\<exists>serial w1. rand_Int env math_MaxInt64 w = (Inr serial, w1)
           \<and> Certificate.NotAfter cert =
               (case CertsConfig.NotAfter cfg of
                  None \<Rightarrow> time_Now env w1 + Duration365d
                | Some t \<Rightarrow> t)"
  using assms
  by (auto simp: NewSignedCert_def x509_keeps_validity_def Let_def
      split: prod.splits sum.splits if_splits option.splits dest!: spec)

theorem NewSignedCert_NotAfter_witness:
  "NewSignedCert (mock_env None) ex_cfg ex_key ex_caCert ex_caKey False 0 =
     (Inr ex_cert, ex_cfg_after, 1)
   \<and> x509_keeps_validity (mock_env None)
   \<and> (\<exists>serial w1. rand_Int (mock_env None) math_MaxInt64 0 = (Inr serial, w1)
           \<and> Certificate.NotAfter ex_cert =
               (case CertsConfig.NotAfter ex_cfg of
                  None \<Rightarrow> time_Now (mock_env None) w1 + Duration365d
                | Some t \<Rightarrow> t))"
  by (rule conjI [OF ex_run conjI [OF mock_keeps_validity
        NewSignedCert_NotAfter [OF ex_run mock_keeps_validity]]])

text \<open>
  Claim C2 as stated fails. The authority of the example dates from time 5 and the call
  is made at time 1000 with no explicit expiry: the certificate starts at 5 and expires
  at 1000 plus 365 days, not at 5 plus 365 days.
\<close>

theorem NewSignedCert_NotAfter_counterexample:
  "CertsConfig.NotAfter ex_cfg = None
   \<and> x509_keeps_validity (mock_env None)
   \<and> NewSignedCert (mock_env None) ex_cfg ex_key ex_caCert ex_caKey False 0 =
       (Inr ex_cert, ex_cfg_after, 1)
   \<and> NotBefore ex_cert = 5
   \<and> Certificate.NotAfter ex_cert = 1000 + Duration365d
   \<and> Certificate.NotAfter ex_cert \<noteq> NotBefore ex_cert + Duration365d"
  by (simp add: ex_run mock_keeps_validity)
    (simp add: ex_cfg_def NewCertConfig_def ex_cert_def mock_certificate_def Duration365d_def
      Hour_def)

text \<open>
  Claim C3, as amended. \<^verbatim>\<open>NewSignedCert\<close> normalises the names of the caller's
  configuration in place. When the serial number has been drawn and the common name is
  not empty, the caller's configuration holds after the call the names that
  \<^verbatim>\<open>RemoveDuplicateAltNames\<close> makes of the ones it held before, and is otherwise
  unchanged; on the two earlier error returns it is unchanged altogether.
\<close>

theorem NewSignedCert_config_after:
  assumes "NewSignedCert env cfg key caCert caKey isCA w = (r, cfg', w')"
  shows "\<exists>a. RemoveDuplicateAltNames env (Some (AltNames cfg)) = Some a
           \<and> cfg' = (if (\<exists>err w1. rand_Int env math_MaxInt64 w = (Inl err, w1))
                          \<or> Config.CommonName cfg = []
                      then cfg else cfg\<lparr>AltNames := a\<rparr>)"
  using assms
  by (auto simp: NewSignedCert_def RemoveDuplicateAltNames_Some Let_def
      split: prod.splits sum.splits if_splits)

theorem NewSignedCert_config_after_witness:
  "NewSignedCert (mock_env None) ex_cfg ex_key ex_caCert ex_caKey False 0 =
     (Inr ex_cert, ex_cfg_after, 1)
   \<and> (\<exists>a. RemoveDuplicateAltNames (mock_env None) (Some (AltNames ex_cfg)) = Some a
           \<and> ex_cfg_after =
               (if (\<exists>err w1. rand_Int (mock_env None) math_MaxInt64 0 = (Inl err, w1))
                     \<or> Config.CommonName ex_cfg = []
                then ex_cfg else ex_cfg\<lparr>AltNames := a\<rparr>))"
  by (rule conjI [OF ex_run NewSignedCert_config_after [OF ex_run]])

text \<open>
  Claim C3 as stated fails. The caller passes the names \<^verbatim>\<open>b, a, a\<close> and three
  addresses; after the call its configuration holds the names \<^verbatim>\<open>a, b\<close> and two
  addresses.
\<close>

theorem NewSignedCert_config_counterexample:
  "AltNames.DNSNames (AltNames ex_cfg) = Some [''b'', ''a'', ''a'']
   \<and> len (IPs (AltNames ex_cfg)) = 3
   \<and> AltNames.DNSNames
       (AltNames (fst (snd (NewSignedCert (mock_env None) ex_cfg ex_key ex_caCert ex_caKey False 0))))
       = Some [''a'', ''b'']
   \<and> len (IPs
       (AltNames (fst (snd (NewSignedCert (mock_env None) ex_cfg ex_key ex_caCert ex_caKey False 0)))))
       = 2"
  by (simp add: ex_run)
    (simp add: ex_cfg_after_def ex_altNames_after_def ex_cfg_def NewCertConfig_def
      ex_altNames_def len_def)

text \<open>
  Claim C4. When the library reads back the validity it was given, the certificate
  returned by \<^verbatim>\<open>NewSignedCert\<close> starts its validity where the certificate of the
  issuing authority starts its own, whatever the time of the call.
\<close>

theorem NewSignedCert_NotBefore:
  assumes "NewSignedCert env cfg key caCert caKey isCA w = (Inr cert, cfg', w')"
    and "x509_keeps_validity env"
  shows "NotBefore cert = NotBefore caCert"
  using assms
  by (auto simp: NewSignedCert_def x509_keeps_validity_def Let_def
      split: prod.splits sum.splits if_splits dest!: spec)

theorem NewSignedCert_NotBefore_witness:
  "NewSignedCert (mock_env None) ex_cfg ex_key ex_caCert ex_caKey False 0 =
     (Inr ex_cert, ex_cfg_after, 1)
   \<and> x509_keeps_validity (mock_env None)
   \<and> NotBefore ex_cert = NotBefore ex_caCert"
  by (rule conjI [OF ex_run conjI [OF mock_keeps_validity
        NewSignedCert_NotBefore [OF ex_run mock_keeps_validity]]])

text \<open>
  Claim C9, as amended. For a configuration with an empty common name
  \<^verbatim>\<open>NewSignedCert\<close> returns an error and no certificate, and leaves the configuration
  as it was. The serial number is drawn before the common name is looked at: when the
  draw succeeds the error is the one about the common name, and when the draw fails it is
  the error of the random source.
\<close>

theorem NewSignedCert_empty_CommonName:
  assumes "Config.CommonName cfg = []"
  shows "NewSignedCert env cfg key caCert caKey isCA w =
           (case rand_Int env math_MaxInt64 w of
              (Inl err, w1) \<Rightarrow> (Inl err, cfg, w1)
            | (Inr serial, w1) \<Rightarrow> (Inl (errors_New ''must specify a CommonName''), cfg, w1))"
  using assms by (simp add: NewSignedCert_def split: prod.splits sum.splits)

lemma ex_cfg_noCN_CommonName: "Config.CommonName ex_cfg_noCN = []"
  by (simp add: ex_cfg_noCN_def NewCertConfig_def)

theorem NewSignedCert_empty_CommonName_witness:
  "Config.CommonName ex_cfg_noCN = []
   \<and> NewSignedCert (mock_env None) ex_cfg_noCN ex_key ex_caCert ex_caKey False 0 =
           (case rand_Int (mock_env None) math_MaxInt64 0 of
              (Inl err, w1) \<Rightarrow> (Inl err, ex_cfg_noCN, w1)
            | (Inr serial, w1) \<Rightarrow>
                (Inl (errors_New ''must specify a CommonName''), ex_cfg_noCN, w1))"
  by (rule conjI [OF ex_cfg_noCN_CommonName
        NewSignedCert_empty_CommonName [OF ex_cfg_noCN_CommonName]])

text \<open>
  Claim C9 as stated fails. With a random source that is exhausted at the first draw,
  the error returned for an empty common name is the one of the source.
\<close>

theorem NewSignedCert_empty_CommonName_counterexample:
  "Config.CommonName ex_cfg_noCN = []
   \<and> NewSignedCert (mock_env (Some 0)) ex_cfg_noCN ex_key ex_caCert ex_caKey False 0 =
       (Inl (errors_New ''entropy exhausted''), ex_cfg_noCN, 0)
   \<and> errors_New ''entropy exhausted'' \<noteq> errors_New ''must specify a CommonName''"
  by (simp add: ex_cfg_noCN_CommonName NewSignedCert_def mock_env_sel mock_rand_Int_def)

subsection \<open>RemoveDuplicateAltNames\<close>

text \<open>
  Claim C6. \<^verbatim>\<open>RemoveDuplicateAltNames\<close> leaves the names sorted, without duplicates
  and with the same members as before (a nil list of names stays nil), and it leaves the
  addresses that are the first with their string form, in the order in which they came:
  the address at position \<open>i\<close> is kept exactly when no earlier address has its string
  form.
\<close>

theorem RemoveDuplicateAltNames_sorted_first_seen:
  assumes "RemoveDuplicateAltNames env (Some a) = Some r"
  shows "sorted (elems (AltNames.DNSNames r))
       \<and> distinct (elems (AltNames.DNSNames r))
       \<and> set (elems (AltNames.DNSNames r)) = set (elems (AltNames.DNSNames a))
       \<and> (AltNames.DNSNames r = None \<longleftrightarrow> AltNames.DNSNames a = None)
       \<and> distinct (map (IP_String env) (elems (IPs r)))
       \<and> elems (IPs r) =
           map (nth (elems (IPs a)))
             (filter (\<lambda>i. \<forall>j<i. IP_String env (elems (IPs a) ! j) \<noteq> IP_String env (elems (IPs a) ! i))
                [0..<length (elems (IPs a))])"
proof -
  have r: "r = \<lparr>AltNames.DNSNames = (case AltNames.DNSNames a of None \<Rightarrow> None
                                | Some names \<Rightarrow> Some (sort (remdups names))),
           IPs = ips_loop (IP_String env) (elems (IPs a)) Map.empty None\<rparr>"
    using assms by (simp add: RemoveDuplicateAltNames_Some)
  have ips: "elems (IPs r) = first_seen (IP_String env) {} (elems (IPs a))"
    by (simp add: r ips_loop_elems)
  have dns: "sorted (elems (AltNames.DNSNames r))" "distinct (elems (AltNames.DNSNames r))"
    "set (elems (AltNames.DNSNames r)) = set (elems (AltNames.DNSNames a))"
    "AltNames.DNSNames r = None \<longleftrightarrow> AltNames.DNSNames a = None"
    by (simp_all add: r split: option.splits)
  have "distinct (map (IP_String env) (elems (IPs r)))"
    by (simp add: ips first_seen_distinct)
  moreover have "elems (IPs r) =
      map (nth (elems (IPs a)))
        (filter (\<lambda>i. \<forall>j<i. IP_String env (elems (IPs a) ! j) \<noteq> IP_String env (elems (IPs a) ! i))
           [0..<length (elems (IPs a))])"
    unfolding ips by (simp add: first_seen_nth [of _ "{}"])
  ultimately show ?thesis
    using dns by blast
qed

theorem RemoveDuplicateAltNames_sorted_first_seen_witness:
  "RemoveDuplicateAltNames (mock_env None) (Some ex_altNames) = Some ex_altNames_after
   \<and> (sorted (elems (AltNames.DNSNames ex_altNames_after))
       \<and> distinct (elems (AltNames.DNSNames ex_altNames_after))
       \<and> set (elems (AltNames.DNSNames ex_altNames_after)) = set (elems (AltNames.DNSNames ex_altNames))
       \<and> (AltNames.DNSNames ex_altNames_after = None \<longleftrightarrow> AltNames.DNSNames ex_altNames = None)
       \<and> distinct (map (IP_String (mock_env None)) (elems (IPs ex_altNames_after)))
       \<and> elems (IPs ex_altNames_after) =
           map (nth (elems (IPs ex_altNames)))
             (filter (\<lambda>i. \<forall>j<i. IP_String (mock_env None) (elems (IPs ex_altNames) ! j)
                              \<noteq> IP_String (mock_env None) (elems (IPs ex_altNames) ! i))
                [0..<length (elems (IPs ex_altNames))]))"
  by (rule conjI [OF ex_normalised RemoveDuplicateAltNames_sorted_first_seen [OF ex_normalised]])

text \<open>
  Claim C7. \<^verbatim>\<open>RemoveDuplicateAltNames\<close> is idempotent: applied to what it has left,
  through a nil pointer or not, it changes nothing.
\<close>

theorem RemoveDuplicateAltNames_idempotent:
  "RemoveDuplicateAltNames env (RemoveDuplicateAltNames env x) = RemoveDuplicateAltNames env x"
proof (cases x)
  case None
  then show ?thesis by (simp add: RemoveDuplicateAltNames_def)
next
  case (Some a)
  have "sort (remdups (sort (remdups names))) = sort (remdups names)" for names :: "string list"
    by (simp add: distinct_remdups_id sorted_sort_id)
  moreover have "ips_loop str (elems (ips_loop str xs Map.empty None)) Map.empty None
      = ips_loop str xs Map.empty None" for str xs
    by (simp add: ips_loop_start first_seen_idem)
  ultimately show ?thesis
    by (simp add: Some RemoveDuplicateAltNames_Some split: option.splits)
qed

theorem RemoveDuplicateAltNames_idempotent_witness:
  "RemoveDuplicateAltNames (mock_env None)
     (RemoveDuplicateAltNames (mock_env None) (Some ex_altNames)) =
   RemoveDuplicateAltNames (mock_env None) (Some ex_altNames)"
  by (rule RemoveDuplicateAltNames_idempotent)

subsection \<open>NewCertAndKey and NewCertConfig\<close>

text \<open>
  Claim C8. For a configuration without extended key usages \<^verbatim>\<open>NewCertAndKey\<close> returns
  the error about the usages and no certificate or key. It does so before any library is
  called: the result is the same in every environment, and the world and the
  configuration are returned as they were, so no key has been generated.
\<close>

theorem NewCertAndKey_rejects_empty_usages:
  assumes "len (Usages config) = 0"
  shows "NewCertAndKey env caCert caKey config w =
           (Inl (errors_New ''must specify at least one ExtKeyUsage''), config, w)"
  using assms by (simp add: NewCertAndKey_def)

lemma ex_cfg_noUsages_len: "len (Usages ex_cfg_noUsages) = 0"
  by (simp add: ex_cfg_noUsages_def len_def)

theorem NewCertAndKey_rejects_empty_usages_witness:
  "len (Usages ex_cfg_noUsages) = 0
   \<and> NewCertAndKey (mock_env None) ex_caCert ex_caKey ex_cfg_noUsages 0 =
           (Inl (errors_New ''must specify at least one ExtKeyUsage''), ex_cfg_noUsages, 0)"
  by (rule conjI [OF ex_cfg_noUsages_len
        NewCertAndKey_rejects_empty_usages [OF ex_cfg_noUsages_len]])

text \<open>
  Claim C10. Whatever its arguments, \<^verbatim>\<open>NewCertConfig\<close> sets the extended key usages to
  server authentication followed by client authentication. The list has two elements, so
  \<^verbatim>\<open>NewCertAndKey\<close> never answers such a configuration with the error about the usages.
\<close>

theorem NewCertConfig_usages:
  "Usages (NewCertConfig cn org altNames notAfter) =
       Some [ExtKeyUsageServerAuth, ExtKeyUsageClientAuth]
   \<and> len (Usages (NewCertConfig cn org altNames notAfter)) = 2
   \<and> fst (NewCertAndKey env caCert caKey (NewCertConfig cn org altNames notAfter) w)
       \<noteq> Inl (errors_New ''must specify at least one ExtKeyUsage'')"
  by (auto simp: NewCertConfig_def len_def NewCertAndKey_def fmt_Errorf_def
      split: prod.splits sum.splits)

theorem NewCertConfig_usages_witness:
  "Usages (NewCertConfig ''karmada-apiserver'' (Some [''system:masters'']) ex_altNames None) =
       Some [ExtKeyUsageServerAuth, ExtKeyUsageClientAuth]
   \<and> len (Usages (NewCertConfig ''karmada-apiserver'' (Some [''system:masters'']) ex_altNames None)) = 2
   \<and> fst (NewCertAndKey (mock_env None) ex_caCert ex_caKey
            (NewCertConfig ''karmada-apiserver'' (Some [''system:masters'']) ex_altNames None) 0)
       \<noteq> Inl (errors_New ''must specify at least one ExtKeyUsage'')"
  by (rule NewCertConfig_usages)

end
